theory Spec2Isabelle
  imports Complex_Main "HOL-Library.Word"
begin

unbundle bit_operations_syntax

section \<open>The AD5253/AD5254 digital potentiometer driver\<close>

text \<open>
  A shallow embedding of \<^verbatim>\<open>src/AD525x/AD525x.cpp\<close>. Every member function of the
  class becomes a function from the object's state to a return value and the new state.
  \<^verbatim>\<open>uint8_t\<close> is \<open>8 word\<close>. The \<^verbatim>\<open>float\<close> returned by \<^verbatim>\<open>read_tolerance\<close> is
  a \<open>rat\<close>: every value the decoder computes is a multiple of \<open>1/256\<close> of magnitude
  below 128 (lemma \<open>tol_decode_exact\<close>), which a 24-bit significand holds without rounding.
\<close>

type_synonym uint8 = "8 word"

subsection \<open>Error codes (\<^verbatim>\<open>AD525x_Errors.h\<close>)\<close>

definition EC_NO_ERR :: uint8 where "EC_NO_ERR = 0"
definition EC_DATA_LONG :: uint8 where "EC_DATA_LONG = 1"
definition EC_NACK_ADDR :: uint8 where "EC_NACK_ADDR = 2"
definition EC_NACK_DATA :: uint8 where "EC_NACK_DATA = 3"
definition EC_I2C_OTHER :: uint8 where "EC_I2C_OTHER = 4"
definition EC_BAD_REGISTER :: uint8 where "EC_BAD_REGISTER = 5"
definition EC_BAD_WIPER_SETTING :: uint8 where "EC_BAD_WIPER_SETTING = 6"
definition EC_BAD_READ_SIZE :: uint8 where "EC_BAD_READ_SIZE = 7"
definition EC_BAD_DEVICE_ADDR :: uint8 where "EC_BAD_DEVICE_ADDR = 8"
definition EC_NOT_IMPLEMENTED :: uint8 where "EC_NOT_IMPLEMENTED = 9"
definition EC_NOT_INITIALIZED :: uint8 where "EC_NOT_INITIALIZED = 10"

subsection \<open>Class constants (\<^verbatim>\<open>AD525x.h\<close>)\<close>

definition base_I2C_addr :: uint8 where "base_I2C_addr = 0x2C"
definition RDAC_register :: uint8 where "RDAC_register = 0x00"
definition EEMEM_register :: uint8 where "EEMEM_register = 0x20"
definition Tolerance_register :: uint8 where "Tolerance_register = 0x38"
definition Tol_int :: uint8 where "Tol_int = 0x00"
definition Tol_dec :: uint8 where "Tol_dec = 0x01"

definition CMD_NOP :: uint8 where "CMD_NOP = 0x80"
definition CMD_Restore_RDAC :: uint8 where "CMD_Restore_RDAC = 0x88"
definition CMD_Store_RDAC :: uint8 where "CMD_Store_RDAC = 0x90"
definition CMD_Dec_RDAC_6dB :: uint8 where "CMD_Dec_RDAC_6dB = 0x98"
definition CMD_Dec_All_RDAC_6dB :: uint8 where "CMD_Dec_All_RDAC_6dB = 0xa0"
definition CMD_Dec_RDAC_step :: uint8 where "CMD_Dec_RDAC_step = 0xa8"
definition CMD_Dec_All_RDAC_step :: uint8 where "CMD_Dec_All_RDAC_step = 0xb0"
definition CMD_Restore_All_RDAC :: uint8 where "CMD_Restore_All_RDAC = 0xb8"
definition CMD_Inc_RDAC_6dB :: uint8 where "CMD_Inc_RDAC_6dB = 0xc0"
definition CMD_Inc_All_RDAC_6dB :: uint8 where "CMD_Inc_All_RDAC_6dB = 0xc8"
definition CMD_Inc_RDAC_step :: uint8 where "CMD_Inc_RDAC_step = 0xd0"
definition CMD_Inc_All_RDAC_step :: uint8 where "CMD_Inc_All_RDAC_step = 0xd8"

text \<open>
  Modelled from the spec: the header that declares \<^verbatim>\<open>AD525x::max_AD_addr\<close>,
  \<^verbatim>\<open>AD525x::max_RDAC_register\<close> and \<^verbatim>\<open>AD525x::max_EEMEM_register\<close> is not among the
  sources (the headers present belong to earlier revisions of the class). The spec gives
  the selector as 2 bits, the wiper index in [0,3] and the non-volatile index in [0,15];
  the docstrings of \<^verbatim>\<open>AD525x.cpp\<close> give the same bounds.
\<close>

definition max_AD_addr :: uint8 where "max_AD_addr = 3"
definition max_RDAC_register :: uint8 where "max_RDAC_register = 3"
definition max_EEMEM_register :: uint8 where "max_EEMEM_register = 15"

definition AD5253_max_val :: uint8 where "AD5253_max_val = 63"
definition AD5254_max_val :: uint8 where "AD5254_max_val = 255"

subsection \<open>The two-wire transport (Arduino's \<^verbatim>\<open>Wire\<close> object)\<close>

text \<open>
  \<^verbatim>\<open>Wire\<close> is the external collaborator. Its state records every call the driver makes,
  in order, and carries a script of what the bus will answer: the codes that the coming
  calls of \<^verbatim>\<open>endTransmission\<close> return and the bytes that the device delivers on the
  coming calls of \<^verbatim>\<open>requestFrom\<close>. An exhausted script answers 0 (no error) and no
  bytes. \<^verbatim>\<open>requestFrom\<close> fills the receive buffer with at most the requested number of
  bytes and returns how many arrived; \<^verbatim>\<open>available\<close> is the length of that buffer;
  \<^verbatim>\<open>read\<close> takes its first byte, or returns -1 (0xFF as a byte) when it is empty.
\<close>

datatype wire_call =
    Begin
  | BeginTransmission uint8
  | Write uint8
  | EndTransmission
  | RequestFrom uint8 uint8
  | Available
  | Read

record wire =
  calls :: "wire_call list"
  end_results :: "uint8 list"
  replies :: "uint8 list list"
  rx :: "uint8 list"

definition called :: "wire_call \<Rightarrow> wire \<Rightarrow> wire" where
  "called c w = w\<lparr>calls := calls w @ [c]\<rparr>"

definition wire_begin :: "wire \<Rightarrow> wire" where
  "wire_begin w = called Begin w"

definition wire_beginTransmission :: "uint8 \<Rightarrow> wire \<Rightarrow> wire" where
  "wire_beginTransmission a w = called (BeginTransmission a) w"

definition wire_write :: "uint8 \<Rightarrow> wire \<Rightarrow> wire" where
  "wire_write b w = called (Write b) w"

definition wire_endTransmission :: "wire \<Rightarrow> uint8 \<times> wire" where
  "wire_endTransmission w =
     (case end_results w of
        [] \<Rightarrow> (0, called EndTransmission w)
      | r # rs \<Rightarrow> (r, called EndTransmission (w\<lparr>end_results := rs\<rparr>)))"

definition wire_requestFrom :: "uint8 \<Rightarrow> uint8 \<Rightarrow> wire \<Rightarrow> uint8 \<times> wire" where
  "wire_requestFrom a n w =
     (case replies w of
        [] \<Rightarrow> (0, called (RequestFrom a n) (w\<lparr>rx := []\<rparr>))
      | bs # rest \<Rightarrow>
          (of_nat (length (take (unat n) bs)),
           called (RequestFrom a n) (w\<lparr>replies := rest, rx := take (unat n) bs\<rparr>)))"

definition wire_available :: "wire \<Rightarrow> nat \<times> wire" where
  "wire_available w = (length (rx w), called Available w)"

definition wire_read :: "wire \<Rightarrow> uint8 \<times> wire" where
  "wire_read w =
     (case rx w of
        [] \<Rightarrow> (0xFF, called Read w)
      | b # bs \<Rightarrow> (b, called Read (w\<lparr>rx := bs\<rparr>)))"

subsection \<open>The object\<close>

text \<open>
  The dynamic type of the object selects the body of the virtual \<^verbatim>\<open>get_max_val\<close>.
  \<^verbatim>\<open>Wire\<close> is a global of the Arduino core; it is kept in the state with the object's
  members so that every function is a function of one state.

  The last field belongs to neither. \<^verbatim>\<open>read_data\<close> ends with \<^verbatim>\<open>return buff;\<close>, where
  \<^verbatim>\<open>buff\<close> is an array local to the function (lines 618-630), and its caller reads
  through that pointer (line 651). The array is dead by then, so the language defines
  neither the pointer the caller receives nor the byte it finds behind it; the compiler
  and the stack decide. \<open>returned_local\<close> is their decision as a function of what the
  array held at the \<^verbatim>\<open>return\<close>: \<open>None\<close> when the caller receives a null pointer (GCC
  replaces the address of a local by 0), and \<open>Some m\<close> when it receives a pointer behind
  which it finds the byte \<open>m i\<close> at index \<open>i\<close>.
\<close>

datatype device = AD525x | AD5253 | AD5254

record handle =
  device :: device
  initialized :: bool
  dev_addr :: uint8
  err_code :: uint8
  Wire :: wire
  returned_local :: "uint8 list \<Rightarrow> (nat \<Rightarrow> uint8) option"

text \<open>
  Three platforms: the null pointer; a pointer to storage that other calls have
  overwritten since; a pointer to storage that still holds what the array held.
\<close>

definition null_pointer :: "uint8 list \<Rightarrow> (nat \<Rightarrow> uint8) option" where
  "null_pointer buff = None"

definition overwritten :: "uint8 list \<Rightarrow> (nat \<Rightarrow> uint8) option" where
  "overwritten buff = Some (\<lambda>i. 0xFF)"

definition untouched :: "uint8 list \<Rightarrow> (nat \<Rightarrow> uint8) option" where
  "untouched buff = Some (\<lambda>i. buff ! i)"

subsection \<open>\<^verbatim>\<open>initialize\<close> (lines 9-38)\<close>

definition initialize :: "uint8 \<Rightarrow> handle \<Rightarrow> uint8 \<times> handle" where
  "initialize AD_addr h =
     (if AD_addr > max_AD_addr then
        (EC_BAD_DEVICE_ADDR, h\<lparr>initialized := False, err_code := EC_BAD_DEVICE_ADDR\<rparr>)
      else
        (0, h\<lparr>dev_addr := base_I2C_addr OR AD_addr,
               Wire := wire_begin (Wire h),
               initialized := True\<rparr>))"

subsection \<open>\<^verbatim>\<open>get_max_val\<close> and \<^verbatim>\<open>get_err_code\<close> (lines 474-528)\<close>

definition get_max_val :: "handle \<Rightarrow> uint8 \<times> handle" where
  "get_max_val h =
     (case device h of
        AD525x \<Rightarrow> (0, h\<lparr>err_code := EC_NOT_IMPLEMENTED\<rparr>)
      | AD5253 \<Rightarrow> (AD5253_max_val, h)
      | AD5254 \<Rightarrow> (AD5254_max_val, h))"

definition get_err_code :: "handle \<Rightarrow> uint8 \<times> handle" where
  "get_err_code h = (err_code h, h)"

subsection \<open>Private transport helpers (lines 533-652)\<close>

definition write_cmd :: "uint8 \<Rightarrow> handle \<Rightarrow> uint8 \<times> handle" where
  "write_cmd cmd_register h =
     (let w1 = wire_beginTransmission (dev_addr h) (Wire h);
          w2 = wire_write cmd_register w1;
          (r, w3) = wire_endTransmission w2
      in (r, h\<lparr>err_code := r, Wire := w3\<rparr>))"

definition write_data :: "uint8 \<Rightarrow> uint8 \<Rightarrow> handle \<Rightarrow> uint8 \<times> handle" where
  "write_data register_addr data h =
     (let w1 = wire_beginTransmission (dev_addr h) (Wire h);
          w2 = wire_write register_addr w1;
          w3 = wire_write data w2;
          (r, w4) = wire_endTransmission w3
      in (r, h\<lparr>err_code := r, Wire := w4\<rparr>))"

text \<open>The loop \<^verbatim>\<open>for(int i = 0; i < length; i++) buff[i] = Wire.read();\<close>\<close>

fun read_bytes :: "nat \<Rightarrow> wire \<Rightarrow> uint8 list \<times> wire" where
  "read_bytes 0 w = ([], w)"
| "read_bytes (Suc n) w =
     (let (b, w1) = wire_read w;
          (bs, w2) = read_bytes n w1
      in (b # bs, w2))"

text \<open>
  \<^verbatim>\<open>read_data\<close> returns \<^verbatim>\<open>NULL\<close> (\<open>None\<close>) on error and otherwise the address of its
  local array \<^verbatim>\<open>buff\<close>. What the caller receives for that address is
  \<open>returned_local\<close> applied to the array's contents: a pointer as the map from index to
  the byte found there, or \<open>None\<close> again. When \<^verbatim>\<open>Wire.available()\<close> differs from
  \<^verbatim>\<open>length\<close> the source leaves the array unwritten; the model fills it with zeros
  there. That branch is never taken, because \<^verbatim>\<open>requestFrom\<close> has just returned
  \<^verbatim>\<open>length\<close> (lemma \<open>requestFrom_available\<close>).
\<close>

definition read_data ::
  "uint8 \<Rightarrow> uint8 \<Rightarrow> handle \<Rightarrow> (nat \<Rightarrow> uint8) option \<times> handle" where
  "read_data register_addr len h =
     (let w1 = wire_beginTransmission (dev_addr h) (Wire h);
          w2 = wire_write register_addr w1;
          (r, w3) = wire_endTransmission w2;
          h1 = h\<lparr>err_code := r, Wire := w3\<rparr>
      in if err_code h1 > 0 then (None, h1)
         else
           let w4 = wire_beginTransmission (dev_addr h1) (Wire h1);
               (n_bytes, w5) = wire_requestFrom (dev_addr h1) len w4
           in if n_bytes \<noteq> len then
                (None, h1\<lparr>err_code := EC_BAD_READ_SIZE, Wire := w5\<rparr>)
              else
                let (avail, w6) = wire_available w5;
                    (buff, w7) = (if avail = unat len then read_bytes (unat len) w6
                                  else (replicate (unat len) 0, w6));
                    (r2, w8) = wire_endTransmission w7;
                    h2 = h1\<lparr>err_code := r2, Wire := w8\<rparr>
                in if err_code h2 > 0 then (None, h2) else (returned_local h2 buff, h2))"

definition read_data_byte :: "uint8 \<Rightarrow> handle \<Rightarrow> uint8 \<times> handle" where
  "read_data_byte register_addr h =
     (case read_data register_addr 1 h of
        (None, h1) \<Rightarrow> (0, h1)
      | (Some rv, h1) \<Rightarrow> (rv 0, h1))"

subsection \<open>Wiper and non-volatile registers (lines 40-194)\<close>

definition write_RDAC :: "uint8 \<Rightarrow> uint8 \<Rightarrow> handle \<Rightarrow> uint8 \<times> handle" where
  "write_RDAC RDAC val h =
     (if \<not> initialized h then (EC_NOT_INITIALIZED, h\<lparr>err_code := EC_NOT_INITIALIZED\<rparr>)
      else if RDAC > max_RDAC_register then
        (EC_BAD_REGISTER, h\<lparr>err_code := EC_BAD_REGISTER\<rparr>)
      else
        let (max_value, h1) = get_max_val h
        in if max_value = 0 then (err_code h1, h1)
           else if val > max_value then
             (EC_BAD_WIPER_SETTING, h1\<lparr>err_code := EC_BAD_WIPER_SETTING\<rparr>)
           else
             let instr_addr = RDAC_register OR RDAC
             in write_data instr_addr val h1)"

definition read_RDAC :: "uint8 \<Rightarrow> handle \<Rightarrow> uint8 \<times> handle" where
  "read_RDAC RDAC h =
     (if \<not> initialized h then (0, h\<lparr>err_code := EC_NOT_INITIALIZED\<rparr>)
      else if RDAC > max_RDAC_register then (0, h\<lparr>err_code := EC_BAD_REGISTER\<rparr>)
      else
        let instr_addr = RDAC_register OR RDAC;
            (rv, h1) = read_data_byte instr_addr h
        in if fst (get_err_code h1) \<noteq> 0 then (0, h1) else (rv, h1))"

definition write_EEMEM :: "uint8 \<Rightarrow> uint8 \<Rightarrow> handle \<Rightarrow> uint8 \<times> handle" where
  "write_EEMEM reg val h =
     (if \<not> initialized h then (EC_NOT_INITIALIZED, h\<lparr>err_code := EC_NOT_INITIALIZED\<rparr>)
      else
        let (max_value, h1) = get_max_val h
        in if max_value = 0 then (err_code h1, h1)
           else if reg \<le> max_RDAC_register \<and> val < max_value then
             (EC_BAD_WIPER_SETTING, h1\<lparr>err_code := EC_BAD_WIPER_SETTING\<rparr>)
           else if reg > max_EEMEM_register then
             (EC_BAD_REGISTER, h1\<lparr>err_code := EC_BAD_REGISTER\<rparr>)
           else
             let instr_addr = EEMEM_register OR reg
             in write_data instr_addr val h1)"

definition read_EEMEM :: "uint8 \<Rightarrow> handle \<Rightarrow> uint8 \<times> handle" where
  "read_EEMEM reg h =
     (if \<not> initialized h then (0, h\<lparr>err_code := EC_NOT_INITIALIZED\<rparr>)
      else if reg > max_EEMEM_register then (0, h\<lparr>err_code := EC_BAD_REGISTER\<rparr>)
      else
        let instr_addr = EEMEM_register OR reg;
            (rv, h1) = read_data_byte instr_addr h
        in if fst (get_err_code h1) \<noteq> 0 then (0, h1) else (rv, h1))"

subsection \<open>Factory tolerance (lines 196-263)\<close>

definition sign_mask :: uint8 where "sign_mask = 0x80"

text \<open>
  The loop \<^verbatim>\<open>for (int i = 0; i < 8; i++)\<close> of the decoder, from counter \<open>i\<close> on:
  \<^verbatim>\<open>if ((sign_mask >> i) & tol_dec_data) output += 1.0/((float)(2<<i));\<close>
\<close>

function tol_loop :: "nat \<Rightarrow> uint8 \<Rightarrow> rat \<Rightarrow> rat" where
  "tol_loop i tol_dec_data output =
     (if i < 8 then
        tol_loop (i + 1) tol_dec_data
          (if drop_bit i sign_mask AND tol_dec_data \<noteq> 0
           then output + 1 / of_int (push_bit i 2)
           else output)
      else output)"
  by pat_completeness auto
termination
  by (relation "measure (\<lambda>(i, d, out). 8 - i)") auto

declare tol_loop.simps [simp del]

text \<open>Lines 248-262: the conversion of the two bytes read to the signed percentage.\<close>

definition tol_decode :: "uint8 \<Rightarrow> uint8 \<Rightarrow> rat" where
  "tol_decode tol_int_data tol_dec_data =
     (let output = of_nat (unat (NOT sign_mask AND tol_int_data));
          output = (if sign_mask AND tol_int_data \<noteq> 0 then output * (- 1) else output)
      in tol_loop 0 tol_dec_data output)"

definition read_tolerance :: "uint8 \<Rightarrow> handle \<Rightarrow> rat \<times> handle" where
  "read_tolerance RDAC h =
     (if \<not> initialized h then (0, h\<lparr>err_code := EC_NOT_INITIALIZED\<rparr>)
      else if RDAC > max_RDAC_register then (0, h\<lparr>err_code := EC_BAD_REGISTER\<rparr>)
      else
        let instr_addr = Tolerance_register OR push_bit 1 RDAC;
            instr_addr_int = instr_addr OR Tol_int;
            instr_addr_dec = instr_addr OR Tol_dec;
            (tol_int_data, h1) = read_data_byte instr_addr_int h
        in if err_code h1 \<noteq> 0 then (0, h1)
           else
             let (tol_dec_data, h2) = read_data_byte instr_addr_dec h1
             in if err_code h2 \<noteq> 0 then (0, h2)
                else (tol_decode tol_int_data tol_dec_data, h2))"

subsection \<open>Device commands (lines 269-468)\<close>

definition reset_device :: "handle \<Rightarrow> uint8 \<times> handle" where
  "reset_device h =
     (if \<not> initialized h then (EC_NOT_INITIALIZED, h\<lparr>err_code := EC_NOT_INITIALIZED\<rparr>)
      else write_cmd CMD_NOP h)"

definition restore_RDAC :: "uint8 \<Rightarrow> handle \<Rightarrow> uint8 \<times> handle" where
  "restore_RDAC RDAC h =
     (if \<not> initialized h then (EC_NOT_INITIALIZED, h\<lparr>err_code := EC_NOT_INITIALIZED\<rparr>)
      else if RDAC > max_RDAC_register then
        (EC_BAD_REGISTER, h\<lparr>err_code := EC_BAD_REGISTER\<rparr>)
      else write_cmd (CMD_Restore_RDAC OR RDAC) h)"

definition restore_all_RDAC :: "handle \<Rightarrow> uint8 \<times> handle" where
  "restore_all_RDAC h =
     (if \<not> initialized h then (EC_NOT_INITIALIZED, h\<lparr>err_code := EC_NOT_INITIALIZED\<rparr>)
      else write_cmd CMD_Restore_All_RDAC h)"

definition store_RDAC :: "uint8 \<Rightarrow> handle \<Rightarrow> uint8 \<times> handle" where
  "store_RDAC RDAC h =
     (if \<not> initialized h then (EC_NOT_INITIALIZED, h\<lparr>err_code := EC_NOT_INITIALIZED\<rparr>)
      else if RDAC > max_RDAC_register then
        (EC_BAD_REGISTER, h\<lparr>err_code := EC_BAD_REGISTER\<rparr>)
      else write_cmd (CMD_Store_RDAC OR RDAC) h)"

definition decrement_RDAC :: "uint8 \<Rightarrow> handle \<Rightarrow> uint8 \<times> handle" where
  "decrement_RDAC RDAC h =
     (if \<not> initialized h then (EC_NOT_INITIALIZED, h\<lparr>err_code := EC_NOT_INITIALIZED\<rparr>)
      else if RDAC > max_RDAC_register then
        (EC_BAD_REGISTER, h\<lparr>err_code := EC_BAD_REGISTER\<rparr>)
      else write_cmd (CMD_Dec_RDAC_step OR RDAC) h)"

definition increment_RDAC :: "uint8 \<Rightarrow> handle \<Rightarrow> uint8 \<times> handle" where
  "increment_RDAC RDAC h =
     (if \<not> initialized h then (EC_NOT_INITIALIZED, h\<lparr>err_code := EC_NOT_INITIALIZED\<rparr>)
      else if RDAC > max_RDAC_register then
        (EC_BAD_REGISTER, h\<lparr>err_code := EC_BAD_REGISTER\<rparr>)
      else write_cmd (CMD_Inc_RDAC_step OR RDAC) h)"

definition decrement_RDAC_6dB :: "uint8 \<Rightarrow> handle \<Rightarrow> uint8 \<times> handle" where
  "decrement_RDAC_6dB RDAC h =
     (if \<not> initialized h then (EC_NOT_INITIALIZED, h\<lparr>err_code := EC_NOT_INITIALIZED\<rparr>)
      else if RDAC > max_RDAC_register then
        (EC_BAD_REGISTER, h\<lparr>err_code := EC_BAD_REGISTER\<rparr>)
      else write_cmd (CMD_Dec_RDAC_6dB OR RDAC) h)"

definition increment_RDAC_6dB :: "uint8 \<Rightarrow> handle \<Rightarrow> uint8 \<times> handle" where
  "increment_RDAC_6dB RDAC h =
     (if \<not> initialized h then (EC_NOT_INITIALIZED, h\<lparr>err_code := EC_NOT_INITIALIZED\<rparr>)
      else if RDAC > max_RDAC_register then
        (EC_BAD_REGISTER, h\<lparr>err_code := EC_BAD_REGISTER\<rparr>)
      else write_cmd (CMD_Inc_RDAC_6dB OR RDAC) h)"

definition decrement_all_RDAC :: "handle \<Rightarrow> uint8 \<times> handle" where
  "decrement_all_RDAC h =
     (if \<not> initialized h then (EC_NOT_INITIALIZED, h\<lparr>err_code := EC_NOT_INITIALIZED\<rparr>)
      else write_cmd CMD_Dec_All_RDAC_step h)"

definition increment_all_RDAC :: "handle \<Rightarrow> uint8 \<times> handle" where
  "increment_all_RDAC h =
     (if \<not> initialized h then (EC_NOT_INITIALIZED, h\<lparr>err_code := EC_NOT_INITIALIZED\<rparr>)
      else write_cmd CMD_Inc_All_RDAC_step h)"

definition decrement_all_RDAC_6dB :: "handle \<Rightarrow> uint8 \<times> handle" where
  "decrement_all_RDAC_6dB h =
     (if \<not> initialized h then (EC_NOT_INITIALIZED, h\<lparr>err_code := EC_NOT_INITIALIZED\<rparr>)
      else write_cmd CMD_Dec_All_RDAC_6dB h)"

definition increment_all_RDAC_6dB :: "handle \<Rightarrow> uint8 \<times> handle" where
  "increment_all_RDAC_6dB h =
     (if \<not> initialized h then (EC_NOT_INITIALIZED, h\<lparr>err_code := EC_NOT_INITIALIZED\<rparr>)
      else write_cmd CMD_Inc_All_RDAC_6dB h)"

subsection \<open>Calling a public operation\<close>

text \<open>
  The register operations and device commands of the class as one type, so that a
  statement can range over all of them. \<open>perform\<close> calls the member function and tags
  its return value with its C++ type: a status code, a register byte or a percentage.
\<close>

datatype operation =
    Write_RDAC uint8 uint8
  | Read_RDAC uint8
  | Write_EEMEM uint8 uint8
  | Read_EEMEM uint8
  | Read_tolerance uint8
  | Reset_device
  | Restore_RDAC uint8
  | Restore_all_RDAC
  | Store_RDAC uint8
  | Decrement_RDAC uint8
  | Increment_RDAC uint8
  | Decrement_RDAC_6dB uint8
  | Increment_RDAC_6dB uint8
  | Decrement_all_RDAC
  | Increment_all_RDAC
  | Decrement_all_RDAC_6dB
  | Increment_all_RDAC_6dB

datatype retval = Status uint8 | Byte uint8 | Percentage rat

fun perform :: "operation \<Rightarrow> handle \<Rightarrow> retval \<times> handle" where
  "perform (Write_RDAC RDAC val) h = apfst Status (write_RDAC RDAC val h)"
| "perform (Read_RDAC RDAC) h = apfst Byte (read_RDAC RDAC h)"
| "perform (Write_EEMEM reg val) h = apfst Status (write_EEMEM reg val h)"
| "perform (Read_EEMEM reg) h = apfst Byte (read_EEMEM reg h)"
| "perform (Read_tolerance RDAC) h = apfst Percentage (read_tolerance RDAC h)"
| "perform Reset_device h = apfst Status (reset_device h)"
| "perform (Restore_RDAC RDAC) h = apfst Status (restore_RDAC RDAC h)"
| "perform Restore_all_RDAC h = apfst Status (restore_all_RDAC h)"
| "perform (Store_RDAC RDAC) h = apfst Status (store_RDAC RDAC h)"
| "perform (Decrement_RDAC RDAC) h = apfst Status (decrement_RDAC RDAC h)"
| "perform (Increment_RDAC RDAC) h = apfst Status (increment_RDAC RDAC h)"
| "perform (Decrement_RDAC_6dB RDAC) h = apfst Status (decrement_RDAC_6dB RDAC h)"
| "perform (Increment_RDAC_6dB RDAC) h = apfst Status (increment_RDAC_6dB RDAC h)"
| "perform Decrement_all_RDAC h = apfst Status (decrement_all_RDAC h)"
| "perform Increment_all_RDAC h = apfst Status (increment_all_RDAC h)"
| "perform Decrement_all_RDAC_6dB h = apfst Status (decrement_all_RDAC_6dB h)"
| "perform Increment_all_RDAC_6dB h = apfst Status (increment_all_RDAC_6dB h)"

text \<open>
  What a call hands back when it stops with error code \<open>e\<close> before reaching the bus:
  the functions that return a status return the code, the three reads return zero.
\<close>

fun error_return :: "operation \<Rightarrow> uint8 \<Rightarrow> retval" where
  "error_return (Read_RDAC RDAC) e = Byte 0"
| "error_return (Read_EEMEM reg) e = Byte 0"
| "error_return (Read_tolerance RDAC) e = Percentage 0"
| "error_return other e = Status e"

text \<open>The wiper index an operation takes, if it takes one.\<close>

fun wiper_arg :: "operation \<Rightarrow> uint8 option" where
  "wiper_arg (Write_RDAC RDAC val) = Some RDAC"
| "wiper_arg (Read_RDAC RDAC) = Some RDAC"
| "wiper_arg (Read_tolerance RDAC) = Some RDAC"
| "wiper_arg (Restore_RDAC RDAC) = Some RDAC"
| "wiper_arg (Store_RDAC RDAC) = Some RDAC"
| "wiper_arg (Decrement_RDAC RDAC) = Some RDAC"
| "wiper_arg (Increment_RDAC RDAC) = Some RDAC"
| "wiper_arg (Decrement_RDAC_6dB RDAC) = Some RDAC"
| "wiper_arg (Increment_RDAC_6dB RDAC) = Some RDAC"
| "wiper_arg other = None"

text \<open>
  A sequence of calls on the same object. After each call the caller looks at the
  return value and at \<^verbatim>\<open>get_err_code()\<close>.
\<close>

fun perform_all :: "operation list \<Rightarrow> handle \<Rightarrow> (retval \<times> uint8) list \<times> handle" where
  "perform_all [] h = ([], h)"
| "perform_all (ope # opes) h =
     (let (r, h1) = perform ope h;
          (rs, h2) = perform_all opes h1
      in ((r, fst (get_err_code h1)) # rs, h2))"

subsection \<open>Auxiliary notions for the statements\<close>

text \<open>The code that the coming call of \<^verbatim>\<open>endTransmission\<close> returns.\<close>

definition next_end_result :: "wire \<Rightarrow> uint8" where
  "next_end_result w = (case end_results w of [] \<Rightarrow> 0 | r # _ \<Rightarrow> r)"

text \<open>
  A call sends the single command byte \<open>b\<close>: one transmission to the object's bus
  address with that byte alone, whose result code is both returned and stored.
\<close>

definition sends_command :: "handle \<Rightarrow> uint8 \<Rightarrow> uint8 \<times> handle \<Rightarrow> bool" where
  "sends_command h b res \<longleftrightarrow>
     calls (Wire (snd res)) =
       calls (Wire h) @ [BeginTransmission (dev_addr h), Write b, EndTransmission]
     \<and> fst res = next_end_result (Wire h)
     \<and> err_code (snd res) = next_end_result (Wire h)"

text \<open>
  The transport keeps to its contract: \<^verbatim>\<open>endTransmission\<close> answers with a code of
  the range 0 to 4. The codes 5, 6, 9 and 10 are then set by local validation only.
\<close>

definition transport_codes :: "wire \<Rightarrow> bool" where
  "transport_codes w \<longleftrightarrow> (\<forall>r \<in> set (end_results w). r \<le> 4)"

definition validation_codes :: "uint8 set" where
  "validation_codes = {5, 6, 9, 10}"

text \<open>
  The decode algorithm in the words of the specification: the low 7 bits of the integer
  byte, negated when bit 7 is set, plus \<open>2^-(i+1)\<close> for every set bit of the fractional
  byte, bit 7 counted as \<open>i = 0\<close> down to bit 0 as \<open>i = 7\<close>.
\<close>

definition tolerance_spec :: "uint8 \<Rightarrow> uint8 \<Rightarrow> rat" where
  "tolerance_spec I F =
     (let magnitude = of_nat (unat (take_bit 7 I));
          s = (if bit I 7 then - magnitude else magnitude)
      in s + (\<Sum>i\<leftarrow>[0..<8]. if bit F (7 - i) then 1 / 2 ^ (i + 1) else 0))"

text \<open>
  Objects to run the functions on: one that was never initialized, on a bus that has
  seen no call and answers every transmission with 0, and the same with a scripted bus.
  They are compiled so that \<^verbatim>\<open>read_data\<close> hands its caller a null pointer.
\<close>

definition idle_wire :: wire where
  "idle_wire = \<lparr>calls = [], end_results = [], replies = [], rx = []\<rparr>"

definition fresh_handle :: "device \<Rightarrow> wire \<Rightarrow> handle" where
  "fresh_handle d w =
     \<lparr>device = d, initialized = False, dev_addr = 0, err_code = 0, Wire = w,
      returned_local = null_pointer\<rparr>"

text \<open>The same object after \<^verbatim>\<open>initialize(0)\<close>.\<close>

definition ready_handle :: "device \<Rightarrow> wire \<Rightarrow> handle" where
  "ready_handle d w = snd (initialize 0 (fresh_handle d w))"

text \<open>An AD5253 whose last call was a rejected \<^verbatim>\<open>initialize(4)\<close>.\<close>

definition stale_handle :: handle where
  "stale_handle = snd (initialize 4 (fresh_handle AD5253 idle_wire))"

text \<open>A bus on which the next transmission is not acknowledged (code 2).\<close>

definition nack_wire :: wire where
  "nack_wire = \<lparr>calls = [], end_results = [2], replies = [], rx = []\<rparr>"

text \<open>
  A bus on which the device answers the next two reads with the bytes 0x05 and 0x80,
  and the calls that \<^verbatim>\<open>read_tolerance(2)\<close> has made on it when both reads went through.
\<close>

definition tolerance_wire :: wire where
  "tolerance_wire = \<lparr>calls = [], end_results = [], replies = [0x05] # [0x80] # [], rx = []\<rparr>"

definition two_reads :: "wire_call list" where
  "two_reads =
     [Begin,
      BeginTransmission 0x2C, Write 0x3C, EndTransmission,
      BeginTransmission 0x2C, RequestFrom 0x2C 1, Available, Read, EndTransmission,
      BeginTransmission 0x2C, Write 0x3D, EndTransmission,
      BeginTransmission 0x2C, RequestFrom 0x2C 1, Available, Read, EndTransmission]"

section \<open>Collections of defining equations\<close>

lemmas ec_defs = EC_NO_ERR_def EC_DATA_LONG_def EC_NACK_ADDR_def EC_NACK_DATA_def
  EC_I2C_OTHER_def EC_BAD_REGISTER_def EC_BAD_WIPER_SETTING_def EC_BAD_READ_SIZE_def
  EC_BAD_DEVICE_ADDR_def EC_NOT_IMPLEMENTED_def EC_NOT_INITIALIZED_def

lemmas cmd_defs = CMD_NOP_def CMD_Restore_RDAC_def CMD_Store_RDAC_def CMD_Dec_RDAC_6dB_def
  CMD_Dec_All_RDAC_6dB_def CMD_Dec_RDAC_step_def CMD_Dec_All_RDAC_step_def
  CMD_Restore_All_RDAC_def CMD_Inc_RDAC_6dB_def CMD_Inc_All_RDAC_6dB_def
  CMD_Inc_RDAC_step_def CMD_Inc_All_RDAC_step_def

lemmas reg_defs = base_I2C_addr_def RDAC_register_def EEMEM_register_def
  Tolerance_register_def Tol_int_def Tol_dec_def

lemmas max_defs = max_AD_addr_def max_RDAC_register_def max_EEMEM_register_def

lemmas val_defs = AD5253_max_val_def AD5254_max_val_def

lemmas wire_defs = called_def wire_begin_def wire_beginTransmission_def wire_write_def
  wire_endTransmission_def wire_requestFrom_def wire_available_def wire_read_def

lemmas read_defs = read_data_byte_def read_data_def wire_defs Let_def case_prod_beta

lemmas command_defs = reset_device_def restore_RDAC_def restore_all_RDAC_def store_RDAC_def
  decrement_RDAC_def increment_RDAC_def decrement_RDAC_6dB_def increment_RDAC_6dB_def
  decrement_all_RDAC_def increment_all_RDAC_def decrement_all_RDAC_6dB_def
  increment_all_RDAC_6dB_def

lemmas op_defs = write_RDAC_def read_RDAC_def write_EEMEM_def read_EEMEM_def
  read_tolerance_def command_defs

section \<open>Properties of the transport helpers\<close>

lemma ready_handle_eq:
  "ready_handle d w =
     \<lparr>device = d, initialized = True, dev_addr = 0x2C, err_code = 0,
      Wire = w\<lparr>calls := calls w @ [Begin]\<rparr>, returned_local = null_pointer\<rparr>"
  by (simp add: ready_handle_def initialize_def fresh_handle_def max_defs reg_defs wire_defs)

lemma write_cmd_result:
  "fst (write_cmd b h) = next_end_result (Wire h)"
  "err_code (snd (write_cmd b h)) = next_end_result (Wire h)"
  "calls (Wire (snd (write_cmd b h))) =
     calls (Wire h) @ [BeginTransmission (dev_addr h), Write b, EndTransmission]"
  by (simp_all add: write_cmd_def wire_defs next_end_result_def Let_def split: list.split)

lemma write_cmd_sends: "sends_command h b (write_cmd b h)"
  by (simp add: sends_command_def write_cmd_result)

lemma write_data_result:
  "fst (write_data a v h) = next_end_result (Wire h)"
  "err_code (snd (write_data a v h)) = next_end_result (Wire h)"
  "calls (Wire (snd (write_data a v h))) =
     calls (Wire h) @ [BeginTransmission (dev_addr h), Write a, Write v, EndTransmission]"
  by (simp_all add: write_data_def wire_defs next_end_result_def Let_def split: list.split)

lemma get_max_val_concrete:
  "device h \<noteq> AD525x \<Longrightarrow> snd (get_max_val h) = h \<and> fst (get_max_val h) \<noteq> 0"
  by (cases "device h") (simp_all add: get_max_val_def val_defs)

text \<open>
  After \<^verbatim>\<open>requestFrom\<close> the number of available bytes is the number it returned, so
  the test \<^verbatim>\<open>Wire.available() == length\<close> of \<^verbatim>\<open>read_data\<close> cannot fail once the
  test \<^verbatim>\<open>n_bytes != length\<close> has passed.
\<close>

lemma requestFrom_available:
  "fst (wire_available (snd (wire_requestFrom a n w))) = unat (fst (wire_requestFrom a n w))"
proof (cases "replies w")
  case Nil
  then show ?thesis by (simp add: wire_available_def wire_requestFrom_def called_def)
next
  case (Cons bs rest)
  have "unat n < 2 ^ LENGTH(8)" by (rule unsigned_less)
  then have "min (length bs) (unat n) < 256"
    by (simp add: min_def)
  then show ?thesis
    using Cons by (simp add: wire_available_def wire_requestFrom_def called_def unat_of_nat)
qed

lemma read_bytes_length: "length (fst (read_bytes n w)) = n"
  by (induction n arbitrary: w) (simp_all add: Let_def case_prod_beta)

lemma read_data_byte_alt:
  "read_data_byte a h =
     (case fst (read_data a 1 h) of None \<Rightarrow> 0 | Some rv \<Rightarrow> rv 0, snd (read_data a 1 h))"
  by (simp add: read_data_byte_def split: prod.splits option.splits)

text \<open>
  A null pointer from a read that went through is not told apart from an error by
  \<^verbatim>\<open>read_data_byte\<close>: it returns 0, and the stored code is the transport's 0.
\<close>

lemma read_data_byte_null:
  "returned_local h = null_pointer \<Longrightarrow> fst (read_data_byte a h) = 0"
  by (simp add: read_data_byte_alt read_data_def null_pointer_def Let_def case_prod_beta)

subsection \<open>Codes that come from the transport\<close>

lemma next_end_result_le:
  "transport_codes w \<Longrightarrow> next_end_result w \<le> 4"
  by (cases "end_results w") (simp_all add: transport_codes_def next_end_result_def)

lemma endTransmission_codes:
  "transport_codes w \<Longrightarrow> fst (wire_endTransmission w) \<le> 4"
  "transport_codes w \<Longrightarrow> transport_codes (snd (wire_endTransmission w))"
  by (cases "end_results w"; simp add: transport_codes_def wire_defs)+

lemma transport_codes_calls [simp]:
  "transport_codes (called c w) = transport_codes w"
  "transport_codes (wire_beginTransmission a w) = transport_codes w"
  "transport_codes (wire_write b w) = transport_codes w"
  "transport_codes (snd (wire_requestFrom a n w)) = transport_codes w"
  "transport_codes (snd (wire_available w)) = transport_codes w"
  "transport_codes (snd (wire_read w)) = transport_codes w"
  by (simp_all add: transport_codes_def wire_defs split: list.split)

lemma read_bytes_codes [simp]:
  "transport_codes (snd (read_bytes n w)) = transport_codes w"
  by (induction n arbitrary: w) (simp_all add: Let_def case_prod_beta)

lemma read_data_codes:
  assumes "transport_codes (Wire h)"
  shows "err_code (snd (read_data a n h)) \<le> 4 \<or> err_code (snd (read_data a n h)) = 7"
    and "transport_codes (Wire (snd (read_data a n h)))"
  using assms
  by (auto simp add: read_data_def Let_def case_prod_beta ec_defs endTransmission_codes)

lemma read_data_byte_codes:
  assumes "transport_codes (Wire h)"
  shows "err_code (snd (read_data_byte a h)) \<le> 4 \<or> err_code (snd (read_data_byte a h)) = 7"
    and "transport_codes (Wire (snd (read_data_byte a h)))"
  using read_data_codes [OF assms, of a 1]
  by (simp_all add: read_data_byte_alt)

lemma write_codes:
  "transport_codes (Wire h) \<Longrightarrow> err_code (snd (write_cmd b h)) \<le> 4"
  "transport_codes (Wire h) \<Longrightarrow> err_code (snd (write_data a v h)) \<le> 4"
  by (simp_all add: write_cmd_result write_data_result next_end_result_le)

lemma not_validation_code:
  "e \<le> 4 \<or> e = 7 \<Longrightarrow> (e :: uint8) \<notin> validation_codes"
  by (auto simp add: validation_codes_def)

section \<open>Initialization\<close>

text \<open>
  Claim C5. For every selector \<open>s\<close> in [0,3], \<open>initialize s\<close> returns 0, sets the bus
  address to \<open>0x2C | s\<close> and sets \<open>initialized\<close>; for every selector above 3 it returns
  \<open>EC_BAD_DEVICE_ADDR\<close> (8), stores that code and leaves the object uninitialized.
\<close>

theorem initialize_selector:
  "(s \<le> 3 \<longrightarrow>
      fst (initialize s h) = 0
      \<and> dev_addr (snd (initialize s h)) = 0x2C OR s
      \<and> initialized (snd (initialize s h)))
   \<and> (s > 3 \<longrightarrow>
      fst (initialize s h) = 8
      \<and> err_code (snd (initialize s h)) = 8
      \<and> \<not> initialized (snd (initialize s h)))"
  by (auto simp add: initialize_def max_defs ec_defs reg_defs)

theorem initialize_selector_witness:
  "((2 :: uint8) \<le> 3
      \<and> fst (initialize 2 (fresh_handle AD5253 idle_wire)) = 0
      \<and> dev_addr (snd (initialize 2 (fresh_handle AD5253 idle_wire))) = 0x2E
      \<and> initialized (snd (initialize 2 (fresh_handle AD5253 idle_wire))))
   \<and> ((4 :: uint8) > 3
      \<and> fst (initialize 4 (snd (initialize 2 (fresh_handle AD5253 idle_wire)))) = 8
      \<and> \<not> initialized (snd (initialize 4 (snd (initialize 2 (fresh_handle AD5253 idle_wire))))))"
  using initialize_selector [of 2 "fresh_handle AD5253 idle_wire"]
    initialize_selector [of 4 "snd (initialize 2 (fresh_handle AD5253 idle_wire))"]
  by simp

subsection \<open>Calls on an object that is not initialized\<close>

lemma perform_uninitialized:
  "\<not> initialized h \<Longrightarrow>
     perform ope h = (error_return ope EC_NOT_INITIALIZED, h\<lparr>err_code := EC_NOT_INITIALIZED\<rparr>)"
  by (cases ope) (simp_all add: op_defs)

lemma perform_bad_index:
  "initialized h \<Longrightarrow> wiper_arg ope = Some i \<Longrightarrow> i > max_RDAC_register \<Longrightarrow>
     perform ope h = (error_return ope EC_BAD_REGISTER, h\<lparr>err_code := EC_BAD_REGISTER\<rparr>)"
  by (cases ope) (simp_all add: op_defs)

lemma perform_all_uninitialized:
  "\<not> initialized h \<Longrightarrow>
     fst (perform_all opes h) = map (\<lambda>ope. (error_return ope 10, 10)) opes
     \<and> snd (perform_all opes h) = (if opes = [] then h else h\<lparr>err_code := 10\<rparr>)"
proof (induction opes arbitrary: h)
  case Nil
  then show ?case by simp
next
  case (Cons ope opes)
  have step: "perform ope h = (error_return ope 10, h\<lparr>err_code := 10\<rparr>)"
    using Cons.prems perform_uninitialized [of h ope] by (simp add: ec_defs)
  have "\<not> initialized (h\<lparr>err_code := 10\<rparr>)"
    using Cons.prems by simp
  from Cons.IH [OF this] show ?case
    by (simp add: step get_err_code_def case_prod_beta)
qed

text \<open>
  Claim C10. \<open>initialize s\<close> with \<open>s > 3\<close>, also on an object that was initialized
  before, returns 8, clears \<open>initialized\<close> and leaves the stored bus address as it was.
  Every register operation and device command called afterwards, in any number and
  order, stops with \<open>EC_NOT_INITIALIZED\<close> (10) without a call to the transport, and the
  object stays uninitialized, until \<open>initialize\<close> is called with a selector in [0,3],
  which succeeds.
\<close>

theorem failed_initialize_locks_out:
  assumes "s > 3"
  shows "fst (initialize s h) = 8
     \<and> \<not> initialized (snd (initialize s h))
     \<and> dev_addr (snd (initialize s h)) = dev_addr h
     \<and> fst (perform_all opes (snd (initialize s h)))
          = map (\<lambda>ope. (error_return ope 10, 10)) opes
     \<and> \<not> initialized (snd (perform_all opes (snd (initialize s h))))
     \<and> dev_addr (snd (perform_all opes (snd (initialize s h)))) = dev_addr h
     \<and> Wire (snd (perform_all opes (snd (initialize s h)))) = Wire h
     \<and> (s' \<le> 3 \<longrightarrow>
          fst (initialize s' (snd (perform_all opes (snd (initialize s h))))) = 0
          \<and> initialized (snd (initialize s' (snd (perform_all opes (snd (initialize s h)))))))"
proof -
  let ?h1 = "snd (initialize s h)"
  have h1: "?h1 = h\<lparr>initialized := False, err_code := 8\<rparr>" "fst (initialize s h) = 8"
    using assms by (simp_all add: initialize_def max_defs ec_defs)
  then have "\<not> initialized ?h1" by simp
  note every = perform_all_uninitialized [OF this, of opes]
  have "s' \<le> 3 \<longrightarrow> fst (initialize s' h2) = 0 \<and> initialized (snd (initialize s' h2))" for h2
    by (auto simp add: initialize_def max_defs)
  with every h1 show ?thesis
    by (cases "opes = []") simp_all
qed

theorem failed_initialize_locks_out_witness:
  "(9 :: uint8) > 3
   \<and> initialized (ready_handle AD5254 idle_wire)
   \<and> fst (initialize 9 (ready_handle AD5254 idle_wire)) = 8
   \<and> dev_addr (snd (initialize 9 (ready_handle AD5254 idle_wire))) = 0x2C
   \<and> fst (perform_all [Write_RDAC 0 1, Read_RDAC 0, Reset_device]
             (snd (initialize 9 (ready_handle AD5254 idle_wire))))
        = [(Status 10, 10), (Byte 0, 10), (Status 10, 10)]
   \<and> calls (Wire (snd (perform_all [Write_RDAC 0 1, Read_RDAC 0, Reset_device]
             (snd (initialize 9 (ready_handle AD5254 idle_wire)))))) = [Begin]
   \<and> (1 :: uint8) \<le> 3
   \<and> initialized (snd (initialize 1 (snd (perform_all [Write_RDAC 0 1, Read_RDAC 0, Reset_device]
             (snd (initialize 9 (ready_handle AD5254 idle_wire)))))))"
  using failed_initialize_locks_out
    [where s = 9 and h = "ready_handle AD5254 idle_wire"
      and opes = "[Write_RDAC 0 1, Read_RDAC 0, Reset_device]" and s' = 1]
  by (simp add: ready_handle_eq idle_wire_def)

section \<open>The maximum wiper value and the wiper registers\<close>

text \<open>
  Claim C9. \<open>get_max_val\<close> on an object of the base class \<open>AD525x\<close> stores
  \<open>EC_NOT_IMPLEMENTED\<close> (9) and returns 0; on an \<open>AD5253\<close> it returns 63 and on an
  \<open>AD5254\<close> 255, the object unchanged. Hence on an initialized object of the base class
  \<open>write_RDAC i v\<close> with \<open>i\<close> in [0,3] returns 9 for every \<open>v\<close>, and the state it
  leaves differs from the one it found in the error code only: the transport is not called.
\<close>

theorem get_max_val_variants:
  "(device h = AD525x \<longrightarrow> get_max_val h = (0, h\<lparr>err_code := 9\<rparr>))
   \<and> (device h = AD5253 \<longrightarrow> get_max_val h = (63, h))
   \<and> (device h = AD5254 \<longrightarrow> get_max_val h = (255, h))
   \<and> (device h = AD525x \<and> initialized h \<and> i \<le> 3 \<longrightarrow>
        write_RDAC i v h = (9, h\<lparr>err_code := 9\<rparr>))"
  by (auto simp add: get_max_val_def write_RDAC_def ec_defs max_defs val_defs)

theorem get_max_val_variants_witness:
  "get_max_val (ready_handle AD525x idle_wire)
     = (0, (ready_handle AD525x idle_wire)\<lparr>err_code := 9\<rparr>)
   \<and> get_max_val (ready_handle AD5253 idle_wire) = (63, ready_handle AD5253 idle_wire)
   \<and> get_max_val (ready_handle AD5254 idle_wire) = (255, ready_handle AD5254 idle_wire)
   \<and> device (ready_handle AD525x idle_wire) = AD525x
   \<and> initialized (ready_handle AD525x idle_wire) \<and> (2 :: uint8) \<le> 3
   \<and> write_RDAC 2 17 (ready_handle AD525x idle_wire)
        = (9, (ready_handle AD525x idle_wire)\<lparr>err_code := 9\<rparr>)
   \<and> calls (Wire (snd (write_RDAC 2 17 (ready_handle AD525x idle_wire)))) = [Begin]"
  using get_max_val_variants [of "ready_handle AD525x idle_wire" 2 17]
    get_max_val_variants [of "ready_handle AD5253 idle_wire" 2 17]
    get_max_val_variants [of "ready_handle AD5254 idle_wire" 2 17]
  by (simp add: ready_handle_eq idle_wire_def)

text \<open>
  Claim C4. On an initialized \<open>AD5253\<close> or \<open>AD5254\<close>, \<open>write_RDAC index val\<close> returns
  \<open>EC_BAD_REGISTER\<close> (5) for every index above 3 and every value; returns
  \<open>EC_BAD_WIPER_SETTING\<close> (6) for an index in [0,3] and a value above the variant's
  maximum; and otherwise makes one transmission of the two bytes \<open>0x00 | index\<close> and
  \<open>val\<close> to the object's bus address, returning and storing the transport's code.
  In the two error cases nothing but the error code changes.
\<close>

theorem write_RDAC_concrete:
  assumes "initialized h" and "device h \<noteq> AD525x"
  shows "(index > 3 \<longrightarrow> write_RDAC index val h = (5, h\<lparr>err_code := 5\<rparr>))
     \<and> (index \<le> 3 \<and> val > fst (get_max_val h) \<longrightarrow>
          write_RDAC index val h = (6, h\<lparr>err_code := 6\<rparr>))
     \<and> (index \<le> 3 \<and> val \<le> fst (get_max_val h) \<longrightarrow>
          calls (Wire (snd (write_RDAC index val h))) =
            calls (Wire h)
              @ [BeginTransmission (dev_addr h), Write (0x00 OR index), Write val,
                 EndTransmission]
          \<and> fst (write_RDAC index val h) = next_end_result (Wire h)
          \<and> err_code (snd (write_RDAC index val h)) = next_end_result (Wire h))"
  using assms get_max_val_concrete [of h]
  by (auto simp add: write_RDAC_def max_defs ec_defs reg_defs write_data_result
      split: prod.splits)

theorem write_RDAC_concrete_witness:
  "initialized (ready_handle AD5253 nack_wire)
   \<and> device (ready_handle AD5253 nack_wire) \<noteq> AD525x
   \<and> write_RDAC 4 0 (ready_handle AD5253 nack_wire)
        = (5, (ready_handle AD5253 nack_wire)\<lparr>err_code := 5\<rparr>)
   \<and> write_RDAC 3 64 (ready_handle AD5253 nack_wire)
        = (6, (ready_handle AD5253 nack_wire)\<lparr>err_code := 6\<rparr>)
   \<and> calls (Wire (snd (write_RDAC 3 63 (ready_handle AD5253 nack_wire))))
        = [Begin, BeginTransmission 0x2C, Write 3, Write 63, EndTransmission]
   \<and> fst (write_RDAC 3 63 (ready_handle AD5253 nack_wire)) = 2"
  using write_RDAC_concrete [of "ready_handle AD5253 nack_wire" 4 0]
    write_RDAC_concrete [of "ready_handle AD5253 nack_wire" 3 64]
    write_RDAC_concrete [of "ready_handle AD5253 nack_wire" 3 63]
  by (simp add: ready_handle_eq nack_wire_def get_max_val_def val_defs next_end_result_def)

section \<open>The non-volatile registers\<close>

text \<open>
  Claim C1. The claim is that \<open>write_EEMEM reg val\<close> fails with
  \<open>EC_BAD_WIPER_SETTING\<close> exactly when \<open>reg\<close> is in [0,3] and \<open>val\<close> exceeds the
  variant's maximum, as the function's own documentation says. The comparison in the
  source is \<^verbatim>\<open>value < max_value\<close>: on an initialized \<open>AD5253\<close> (maximum 63) the value
  64 for register 1 is transmitted as the bytes 0x21, 64 with result 0, and the value 10
  for register 1 is rejected with code 6.
\<close>

theorem write_EEMEM_shadow_inverted:
  "write_EEMEM 1 64 (ready_handle AD5253 idle_wire)
     = (0, (ready_handle AD5253 idle_wire)
             \<lparr>Wire := idle_wire\<lparr>calls :=
                 [Begin, BeginTransmission 0x2C, Write 0x21, Write 64, EndTransmission]\<rparr>\<rparr>)
   \<and> write_EEMEM 1 10 (ready_handle AD5253 idle_wire)
     = (6, (ready_handle AD5253 idle_wire)\<lparr>err_code := 6\<rparr>)
   \<and> fst (get_max_val (ready_handle AD5253 idle_wire)) = 63"
  by (simp add: ready_handle_eq idle_wire_def write_EEMEM_def get_max_val_def val_defs
      max_defs ec_defs reg_defs write_data_def wire_defs Let_def)

text \<open>
  Claim C2. On an initialized \<open>AD5253\<close> or \<open>AD5254\<close>, \<open>write_EEMEM 1 val\<close> with
  \<open>val\<close> below the variant's maximum returns \<open>EC_BAD_WIPER_SETTING\<close> (6) and changes
  nothing but the error code; \<open>write_EEMEM 5 200\<close> transmits the two bytes
  \<open>0x20 | 5\<close> and 200 and returns and stores the transport's code, whatever the
  variant's maximum is.
\<close>

theorem write_EEMEM_as_coded:
  assumes "initialized h" and "device h \<noteq> AD525x"
  shows "(val < fst (get_max_val h) \<longrightarrow> write_EEMEM 1 val h = (6, h\<lparr>err_code := 6\<rparr>))
     \<and> calls (Wire (snd (write_EEMEM 5 200 h))) =
          calls (Wire h)
            @ [BeginTransmission (dev_addr h), Write (0x20 OR 5), Write 200, EndTransmission]
     \<and> fst (write_EEMEM 5 200 h) = next_end_result (Wire h)
     \<and> err_code (snd (write_EEMEM 5 200 h)) = next_end_result (Wire h)"
  using assms get_max_val_concrete [of h]
  by (auto simp add: write_EEMEM_def max_defs ec_defs reg_defs write_data_result
      split: prod.splits)

theorem write_EEMEM_as_coded_witness:
  "initialized (ready_handle AD5253 idle_wire)
   \<and> device (ready_handle AD5253 idle_wire) \<noteq> AD525x
   \<and> (62 :: uint8) < fst (get_max_val (ready_handle AD5253 idle_wire))
   \<and> write_EEMEM 1 62 (ready_handle AD5253 idle_wire)
        = (6, (ready_handle AD5253 idle_wire)\<lparr>err_code := 6\<rparr>)
   \<and> calls (Wire (snd (write_EEMEM 5 200 (ready_handle AD5253 idle_wire))))
        = [Begin, BeginTransmission 0x2C, Write 0x25, Write 200, EndTransmission]
   \<and> fst (write_EEMEM 5 200 (ready_handle AD5253 idle_wire)) = 0"
  using write_EEMEM_as_coded [of "ready_handle AD5253 idle_wire" 62]
  by (simp add: ready_handle_eq idle_wire_def get_max_val_def val_defs next_end_result_def)

section \<open>Device commands\<close>

text \<open>
  Claim C7. On an initialized object \<open>restore_RDAC 2\<close> sends the single command byte
  0x8A and \<open>increment_all_RDAC_6dB\<close> the byte 0xC8. Each command without an index sends
  its opcode of the table (NOP 0x80, Dec6dBAll 0xA0, DecStepAll 0xB0, RestoreAll 0xB8,
  Inc6dBAll 0xC8, IncStepAll 0xD8), and each command with a wiper index \<open>i\<close> in [0,3]
  sends its opcode (RestoreOne 0x88, StoreOne 0x90, Dec6dBOne 0x98, DecStepOne 0xA8,
  Inc6dBOne 0xC0, IncStepOne 0xD0) OR'd with \<open>i\<close>.
\<close>

theorem command_opcodes:
  assumes "initialized h"
  shows "sends_command h 0x8A (restore_RDAC 2 h)
     \<and> sends_command h 0xC8 (increment_all_RDAC_6dB h)
     \<and> sends_command h 0x80 (reset_device h)
     \<and> sends_command h 0xA0 (decrement_all_RDAC_6dB h)
     \<and> sends_command h 0xB0 (decrement_all_RDAC h)
     \<and> sends_command h 0xB8 (restore_all_RDAC h)
     \<and> sends_command h 0xD8 (increment_all_RDAC h)
     \<and> (i \<le> 3 \<longrightarrow>
          sends_command h (0x88 OR i) (restore_RDAC i h)
        \<and> sends_command h (0x90 OR i) (store_RDAC i h)
        \<and> sends_command h (0x98 OR i) (decrement_RDAC_6dB i h)
        \<and> sends_command h (0xA8 OR i) (decrement_RDAC i h)
        \<and> sends_command h (0xC0 OR i) (increment_RDAC_6dB i h)
        \<and> sends_command h (0xD0 OR i) (increment_RDAC i h))"
proof -
  have two: "CMD_Restore_RDAC OR 2 = 0x8A"
    by (simp add: cmd_defs)
  have "sends_command h (CMD_Restore_RDAC OR 2) (restore_RDAC 2 h)"
    using assms by (simp add: restore_RDAC_def max_defs write_cmd_sends)
  then have "sends_command h 0x8A (restore_RDAC 2 h)"
    by (simp only: two)
  moreover have "sends_command h 0xC8 (increment_all_RDAC_6dB h)"
    "sends_command h 0x80 (reset_device h)"
    "sends_command h 0xA0 (decrement_all_RDAC_6dB h)"
    "sends_command h 0xB0 (decrement_all_RDAC h)"
    "sends_command h 0xB8 (restore_all_RDAC h)"
    "sends_command h 0xD8 (increment_all_RDAC h)"
    using assms write_cmd_sends [of h]
    by (simp_all add: command_defs cmd_defs)
  moreover have "i \<le> 3 \<longrightarrow>
          sends_command h (0x88 OR i) (restore_RDAC i h)
        \<and> sends_command h (0x90 OR i) (store_RDAC i h)
        \<and> sends_command h (0x98 OR i) (decrement_RDAC_6dB i h)
        \<and> sends_command h (0xA8 OR i) (decrement_RDAC i h)
        \<and> sends_command h (0xC0 OR i) (increment_RDAC_6dB i h)
        \<and> sends_command h (0xD0 OR i) (increment_RDAC i h)"
    using assms write_cmd_sends [of h]
    by (auto simp add: command_defs cmd_defs max_defs)
  ultimately show ?thesis by simp
qed

theorem command_opcodes_witness:
  "initialized (ready_handle AD5254 idle_wire) \<and> (3 :: uint8) \<le> 3
   \<and> calls (Wire (snd (restore_RDAC 2 (ready_handle AD5254 idle_wire))))
        = [Begin, BeginTransmission 0x2C, Write 0x8A, EndTransmission]
   \<and> calls (Wire (snd (increment_all_RDAC_6dB (ready_handle AD5254 idle_wire))))
        = [Begin, BeginTransmission 0x2C, Write 0xC8, EndTransmission]
   \<and> calls (Wire (snd (increment_RDAC 3 (ready_handle AD5254 idle_wire))))
        = [Begin, BeginTransmission 0x2C, Write 0xD3, EndTransmission]"
  using command_opcodes [of "ready_handle AD5254 idle_wire" 3]
  by (simp add: sends_command_def ready_handle_eq idle_wire_def)

section \<open>Validation comes before the transport\<close>

lemma perform_local_error:
  assumes "transport_codes (Wire h)"
    and "err_code (snd (perform ope h)) \<in> validation_codes"
  shows "Wire (snd (perform ope h)) = Wire h"
proof (cases "initialized h")
  case False
  then show ?thesis by (simp add: perform_uninitialized)
next
  case True
  note wr = write_codes [OF assms(1)] not_validation_code
  show ?thesis
  proof (cases ope)
    case (Write_RDAC i v)
    then show ?thesis
      using assms(2) True wr(2) [of "RDAC_register OR i" v] wr(3)
      by (cases "device h")
         (auto simp add: write_RDAC_def get_max_val_def Let_def split: if_splits)
  next
    case (Write_EEMEM r v)
    then show ?thesis
      using assms(2) True wr(2) [of "EEMEM_register OR r" v] wr(3)
      by (cases "device h")
         (auto simp add: write_EEMEM_def get_max_val_def Let_def split: if_splits)
  next
    case (Read_RDAC i)
    then show ?thesis
      using assms(2) True read_data_byte_codes(1) [OF assms(1), of "RDAC_register OR i"] wr(3)
      by (auto simp add: read_RDAC_def get_err_code_def Let_def case_prod_beta split: if_splits)
  next
    case (Read_EEMEM r)
    then show ?thesis
      using assms(2) True read_data_byte_codes(1) [OF assms(1), of "EEMEM_register OR r"] wr(3)
      by (auto simp add: read_EEMEM_def get_err_code_def Let_def case_prod_beta split: if_splits)
  next
    case (Read_tolerance i)
    let ?a = "Tolerance_register OR push_bit 1 i"
    let ?h1 = "snd (read_data_byte (?a OR Tol_int) h)"
    have "err_code ?h1 \<notin> validation_codes"
      using read_data_byte_codes(1) [OF assms(1)] wr(3) by blast
    moreover have "err_code (snd (read_data_byte (?a OR Tol_dec) ?h1)) \<notin> validation_codes"
      using read_data_byte_codes(1) [OF read_data_byte_codes(2) [OF assms(1)]] wr(3) by blast
    ultimately show ?thesis
      using assms(2) True Read_tolerance
      by (auto simp add: read_tolerance_def Let_def case_prod_beta split: if_splits)
  qed (use assms(2) True wr(1) wr(3) in
        \<open>auto simp add: command_defs split: if_splits\<close>)
qed

text \<open>
  Claim C6. Every register operation and device command called on an object that is not
  initialized stores \<open>EC_NOT_INITIALIZED\<close> (10), hands back the code (the reads: zero)
  and changes nothing else, so no transport call is made. More generally a call that
  fails its local validation returns before the transport is touched: an initialized
  object rejects a wiper index above 3 and a non-volatile register above 15 with code 5
  and no other change; whenever a call ends with one of the codes 5, 6, 9, 10 that only
  validation sets (the transport answering with its codes 0 to 4), the transport's state
  is as it was before the call; and \<open>initialize\<close> with a selector above 3 does not call
  the transport either.
\<close>

theorem validation_before_transport:
  "(\<not> initialized h \<longrightarrow> perform ope h = (error_return ope 10, h\<lparr>err_code := 10\<rparr>))
   \<and> (initialized h \<and> wiper_arg ope = Some i \<and> i > 3 \<longrightarrow>
        perform ope h = (error_return ope 5, h\<lparr>err_code := 5\<rparr>))
   \<and> (initialized h \<and> reg > 15 \<longrightarrow>
        read_EEMEM reg h = (0, h\<lparr>err_code := 5\<rparr>))
   \<and> (initialized h \<and> reg > 15 \<and> device h \<noteq> AD525x \<longrightarrow>
        write_EEMEM reg v h = (5, h\<lparr>err_code := 5\<rparr>))
   \<and> (transport_codes (Wire h) \<and> err_code (snd (perform ope h)) \<in> {5, 6, 9, 10} \<longrightarrow>
        Wire (snd (perform ope h)) = Wire h)
   \<and> (s > 3 \<longrightarrow> Wire (snd (initialize s h)) = Wire h)"
proof -
  have "\<not> initialized h \<longrightarrow> perform ope h = (error_return ope 10, h\<lparr>err_code := 10\<rparr>)"
    using perform_uninitialized [of h ope] by (simp add: ec_defs)
  moreover have "initialized h \<and> wiper_arg ope = Some i \<and> i > 3 \<longrightarrow>
        perform ope h = (error_return ope 5, h\<lparr>err_code := 5\<rparr>)"
    using perform_bad_index [of h ope i] by (simp add: ec_defs max_defs)
  moreover have "initialized h \<and> reg > 15 \<longrightarrow> read_EEMEM reg h = (0, h\<lparr>err_code := 5\<rparr>)"
    by (simp add: read_EEMEM_def ec_defs max_defs)
  moreover have "initialized h \<and> reg > 15 \<and> device h \<noteq> AD525x \<longrightarrow>
        write_EEMEM reg v h = (5, h\<lparr>err_code := 5\<rparr>)"
  proof -
    have "\<not> reg \<le> 3" if "reg > 15"
      using that by (simp add: word_le_nat_alt word_less_nat_alt)
    then show ?thesis
      using get_max_val_concrete [of h]
      by (auto simp add: write_EEMEM_def ec_defs max_defs split: prod.splits)
  qed
  moreover have "transport_codes (Wire h) \<and> err_code (snd (perform ope h)) \<in> {5, 6, 9, 10} \<longrightarrow>
        Wire (snd (perform ope h)) = Wire h"
    using perform_local_error [of h ope] by (simp add: validation_codes_def)
  moreover have "s > 3 \<longrightarrow> Wire (snd (initialize s h)) = Wire h"
    by (simp add: initialize_def max_defs)
  ultimately show ?thesis by blast
qed

theorem validation_before_transport_witness:
  "\<not> initialized (fresh_handle AD5253 nack_wire)
   \<and> perform (Read_tolerance 1) (fresh_handle AD5253 nack_wire)
        = (Percentage 0, (fresh_handle AD5253 nack_wire)\<lparr>err_code := 10\<rparr>)
   \<and> initialized (ready_handle AD5253 nack_wire)
   \<and> wiper_arg (Store_RDAC 7) = Some 7 \<and> (7 :: uint8) > 3
   \<and> perform (Store_RDAC 7) (ready_handle AD5253 nack_wire)
        = (Status 5, (ready_handle AD5253 nack_wire)\<lparr>err_code := 5\<rparr>)
   \<and> (16 :: uint8) > 15 \<and> device (ready_handle AD5253 nack_wire) \<noteq> AD525x
   \<and> read_EEMEM 16 (ready_handle AD5253 nack_wire)
        = (0, (ready_handle AD5253 nack_wire)\<lparr>err_code := 5\<rparr>)
   \<and> write_EEMEM 16 0 (ready_handle AD5253 nack_wire)
        = (5, (ready_handle AD5253 nack_wire)\<lparr>err_code := 5\<rparr>)
   \<and> transport_codes (Wire (ready_handle AD5253 nack_wire))
   \<and> err_code (snd (perform (Write_RDAC 0 64) (ready_handle AD5253 nack_wire))) \<in> {5, 6, 9, 10}
   \<and> Wire (snd (perform (Write_RDAC 0 64) (ready_handle AD5253 nack_wire)))
        = Wire (ready_handle AD5253 nack_wire)
   \<and> Wire (snd (initialize 4 (ready_handle AD5253 nack_wire)))
        = Wire (ready_handle AD5253 nack_wire)"
  using validation_before_transport
      [where h = "fresh_handle AD5253 nack_wire" and ope = "Read_tolerance 1"
        and i = 1 and reg = 16 and v = 0 and s = 4]
    validation_before_transport
      [where h = "ready_handle AD5253 nack_wire" and ope = "Store_RDAC 7"
        and i = 7 and reg = 16 and v = 0 and s = 4]
    validation_before_transport
      [where h = "ready_handle AD5253 nack_wire" and ope = "Write_RDAC 0 64"
        and i = 0 and reg = 16 and v = 0 and s = 4]
  by (simp add: ready_handle_eq fresh_handle_def nack_wire_def transport_codes_def
      write_RDAC_def get_max_val_def val_defs max_defs ec_defs)

section \<open>The stored error code\<close>

text \<open>
  Claim C8. The claim is that every operation that succeeds leaves the stored error code
  at 0, a successful \<open>initialize\<close> in particular. The success path of \<open>initialize\<close>
  (lines 32-37) does not assign \<^verbatim>\<open>err_code\<close>: on an \<open>AD5253\<close> whose
  \<open>initialize 4\<close> was rejected, storing code 8, \<open>initialize 1\<close> returns 0 and sets
  \<open>initialized\<close>, and the stored code is still 8. A successful \<open>write_RDAC 0 5\<close> on
  that object then returns 0 and stores 0, as every register operation and command does
  through the transport's result.
\<close>

theorem initialize_keeps_stale_error:
  "err_code stale_handle = 8
   \<and> fst (initialize 1 stale_handle) = 0
   \<and> initialized (snd (initialize 1 stale_handle))
   \<and> dev_addr (snd (initialize 1 stale_handle)) = 0x2D
   \<and> err_code (snd (initialize 1 stale_handle)) = 8
   \<and> fst (get_err_code (snd (initialize 1 stale_handle))) = 8
   \<and> fst (write_RDAC 0 5 (snd (initialize 1 stale_handle))) = 0
   \<and> err_code (snd (write_RDAC 0 5 (snd (initialize 1 stale_handle)))) = 0"
  by (simp add: stale_handle_def initialize_def fresh_handle_def idle_wire_def get_err_code_def
      write_RDAC_def get_max_val_def write_data_def val_defs max_defs ec_defs reg_defs
      wire_defs Let_def)

section \<open>The tolerance decoder\<close>

lemma bit_sign_mask: "bit sign_mask n \<longleftrightarrow> n = 7"
proof -
  have "bit ((2 :: uint8) ^ 7) n \<longleftrightarrow> n = 7"
    unfolding bit_exp_iff by auto
  then show ?thesis by (simp add: sign_mask_def)
qed

lemma mask_bit_test:
  assumes "i < 8"
  shows "(drop_bit i sign_mask AND d \<noteq> 0) = bit d (7 - i)"
proof -
  have "drop_bit i sign_mask = (2 :: uint8) ^ (7 - i)"
    using assms
    by (rule_tac bit_word_eqI) (auto simp add: bit_sign_mask bit_simps)
  then show ?thesis
    by (simp add: and_exp_eq_0_iff_not_bit and.commute)
qed

text \<open>The loop adds the weight \<open>2^-(j+1)\<close> for every \<open>j\<close> from \<open>i\<close> on whose bit is set.\<close>

lemma tol_loop_sum:
  "tol_loop i d out =
     out + (\<Sum>j\<leftarrow>[i..<8]. if bit d (7 - j) then 1 / 2 ^ (j + 1) else 0)"
proof (induction i d out rule: tol_loop.induct)
  case (1 i d out)
  show ?case
  proof (cases "i < 8")
    case True
    have "[i..<8] = i # [i + 1..<8]"
      using True by (simp add: upt_conv_Cons)
    with True 1 show ?thesis
      by (subst tol_loop.simps) (simp add: mask_bit_test push_bit_eq_mult)
  next
    case False
    then show ?thesis by (subst tol_loop.simps) simp
  qed
qed

lemma tol_decode_spec: "tol_decode I F = tolerance_spec I F"
proof -
  have m: "NOT sign_mask AND I = take_bit 7 I"
    by (rule bit_word_eqI) (auto simp add: bit_sign_mask bit_simps)
  have s: "(sign_mask AND I \<noteq> 0) = bit I 7"
    using mask_bit_test [of 0 I] by simp
  show ?thesis
    by (simp add: tol_decode_def tolerance_spec_def Let_def tol_loop_sum m s)
qed

subsection \<open>The decoded value needs no rounding\<close>

lemma upt8: "[0..<8] = [0, 1, 2, 3, 4, 5, 6, 7]"
  by code_simp

lemma unat_bits8:
  "unat (F :: uint8) = horner_sum of_bool 2 (map (bit F) [0..<8])"
proof -
  have "horner_sum of_bool 2 (map (bit (unat F)) [0..<8]) = take_bit 8 (unat F)"
    by (rule horner_sum_bit_eq_take_bit)
  moreover have "take_bit 8 (unat F) = unat F"
    using unsigned_less [of F, where 'a = nat] by (simp add: take_bit_nat_eq_self_iff)
  moreover have "map (bit (unat F)) [0..<8] = map (bit F) [0..<8]"
    by (simp add: bit_unsigned_iff)
  ultimately show ?thesis by simp
qed

lemma fraction_sum:
  "(\<Sum>i\<leftarrow>[0..<8]. if bit F (7 - i) then 1 / 2 ^ (i + 1) else 0)
     = (of_nat (unat (F :: uint8)) / 256 :: rat)"
  by (simp add: unat_bits8 upt8 of_bool_def)

lemma tol_decode_exact:
  "\<exists>k :: int. \<bar>k\<bar> < 2 ^ 15 \<and> tol_decode I F = of_int k / 2 ^ 8"
proof -
  define m where "m = int (unat (take_bit 7 I))"
  define f where "f = int (unat F)"
  define k where "k = (if bit I 7 then - m else m) * 256 + f"
  have "unat (take_bit 7 I) < 128"
    using take_bit_nat_less_exp [of 7 "unat I"] by (simp add: unsigned_take_bit_eq)
  then have m: "0 \<le> m" "m < 128"
    unfolding m_def by linarith+
  have "unat F < 2 ^ LENGTH(8)"
    by (rule unsigned_less)
  then have "unat F < 256"
    by simp
  then have f: "0 \<le> f" "f < 256"
    unfolding f_def by linarith+
  have "\<bar>k\<bar> < 2 ^ 15"
    using m f by (simp add: k_def abs_if)
  moreover have "tol_decode I F = of_int k / 2 ^ 8"
    by (simp add: tol_decode_spec tolerance_spec_def fraction_sum Let_def add_divide_distrib
        k_def m_def f_def)
  ultimately show ?thesis by blast
qed

text \<open>
  Claim C3. The claim is that \<open>read_tolerance\<close> returns the decoded value of the two
  bytes the device delivers, 5.5 for 0x05 and 0x80. The decoder does compute that value
  from those bytes, but the bytes do not reach it: \<^verbatim>\<open>read_data\<close> returns the address of
  its dead local array. On an initialized \<open>AD5254\<close> whose device delivers 0x05 and 0x80
  to \<open>read_tolerance 2\<close>, both reads go through on the bus and the stored code is 0.
  Where the caller receives a null pointer the result is 0; where the storage has been
  overwritten with 0xFF the result is the decoding of 0xFF, 0xFF; only where the dead
  storage still holds the array's bytes is the result 5.5.
\<close>

theorem read_tolerance_loses_bytes:
  "tol_decode 0x05 0x80 = 11 / 2
   \<and> fst (read_tolerance 2 (ready_handle AD5254 tolerance_wire)) = 0
   \<and> err_code (snd (read_tolerance 2 (ready_handle AD5254 tolerance_wire))) = 0
   \<and> calls (Wire (snd (read_tolerance 2 (ready_handle AD5254 tolerance_wire)))) = two_reads
   \<and> fst (read_tolerance 2 ((ready_handle AD5254 tolerance_wire)\<lparr>returned_local := overwritten\<rparr>))
        = - 32257 / 256
   \<and> err_code (snd (read_tolerance 2
        ((ready_handle AD5254 tolerance_wire)\<lparr>returned_local := overwritten\<rparr>))) = 0
   \<and> fst (read_tolerance 2 ((ready_handle AD5254 tolerance_wire)\<lparr>returned_local := untouched\<rparr>))
        = 11 / 2"
  by (simp add: ready_handle_eq tolerance_wire_def two_reads_def read_tolerance_def
      max_defs reg_defs read_defs null_pointer_def overwritten_def untouched_def
      tol_decode_def sign_mask_def tol_loop.simps)

end
